theory Spec2Isabelle
  imports Complex_Main "HOL-Library.Word" "HOL-Library.Log_Nat"
begin

section \<open>Data model of package bench\<close>

text \<open>
  Go's \<open>int\<close> is modelled as a 64-bit word (the size on every 64-bit platform): \<open>+\<close> and
  \<open>-\<close> wrap, \<open>sint\<close> reads the signed value. A finite \<open>float64\<close> is modelled by the rational
  number it denotes; a comparison of two floats is the comparison of the rationals, and
  sums, differences and quotients of floats are taken exactly (the rounding of the last
  bit is not modelled). Where a float meets an integer, in the rank of a percentile, the
  IEEE rounding is modelled bit for bit (section \<open>Percentile ranks\<close>).
\<close>

type_synonym go_int = "64 word"
type_synonym float64 = rat

text \<open>The error values of the package, and those of the libraries it passes on.\<close>

datatype error =
    ErrNoArgs
  | ErrNoURL
  | ErrTimeNotRecorded
  | ErrValueCannotBeNil
  | ErrInvalidURL string          \<comment> \<open>\<open>fmt.Errorf("invalid URL %q", u)\<close>\<close>
  | ErrInvalidRequests go_int     \<comment> \<open>\<open>fmt.Errorf("%d is invalid number of requests", n)\<close>\<close>
  | ErrSyntax string string       \<comment> \<open>\<open>strconv.NumError\<close>: function, input, \<open>ErrSyntax\<close>\<close>
  | ErrRange string string        \<comment> \<open>\<open>strconv.NumError\<close>: function, input, \<open>ErrRange\<close>\<close>
  | ErrTooLong                    \<comment> \<open>\<open>bufio.ErrTooLong\<close>\<close>
  | ErrExternal string            \<comment> \<open>an error of \<open>net/url\<close>, \<open>os\<close> or the plot library\<close>

record Stats =
  URL :: string
  Mean :: float64
  P50 :: float64
  P90 :: float64
  P99 :: float64
  Failures :: go_int
  Requests :: go_int
  Successes :: go_int

text \<open>\<open>StatsDelta\<close> repeats six field names of \<open>Stats\<close>; its fields carry the suffix \<open>_d\<close>.\<close>

record StatsDelta =
  P50_d :: float64
  P90_d :: float64
  P99_d :: float64
  Requests_d :: go_int
  Failures_d :: go_int
  Successes_d :: go_int

record TimeRecorder =
  ExecutionsTime :: "float64 list"

text \<open>
  An \<open>io.Writer\<close> is modelled by what has been written to it: \<open>io.Discard\<close>, a buffer
  or file with its content, or a writer whose \<open>Write\<close> fails. The nil interface value
  is \<open>None\<close> of \<open>writer option\<close>; it only occurs as the argument of an option.
\<close>

datatype writer = Discard | Buffer string | Broken error

record HTTPClient =
  Timeout :: int                  \<comment> \<open>nanoseconds\<close>

text \<open>
  The struct \<open>Tester\<close>. The wait group, the two mutexes and the channel \<open>Work\<close> are
  synchronisation only: the mutexes make each \<open>Record...\<close> call one atomic step, the
  channel and the wait group are the token counter and the program counters of section
  \<open>Run\<close>. The field \<open>URL\<close> is named \<open>URL_t\<close> here, \<open>URL\<close> being the field of \<open>Stats\<close>.
\<close>

record Tester =
  Concurrency :: go_int
  client :: HTTPClient
  EndAt :: int                    \<comment> \<open>a \<open>time.Duration\<close>, in nanoseconds\<close>
  ExportStats :: bool
  Graphs :: bool
  OutputPath :: string
  requests :: go_int
  startAt :: int
  stdout :: writer
  stderr :: writer
  URL_t :: string
  userAgent :: string
  stats :: Stats
  TimeRecorder :: TimeRecorder

definition DefaultConcurrency :: go_int where "DefaultConcurrency = 1"
definition DefaultNumRequests :: go_int where "DefaultNumRequests = 1"
definition DefaultOutputPath :: string where "DefaultOutputPath = ''./''"
definition DefaultUserAgent :: string where "DefaultUserAgent = ''Bench 0.0.1 Alpha''"
definition DefaultHTTPClient :: HTTPClient where
  "DefaultHTTPClient = \<lparr>Timeout = 5 * 1000000000\<rparr>"

definition zero_Stats :: Stats where
  "zero_Stats = \<lparr>URL = [], Mean = 0, P50 = 0, P90 = 0, P99 = 0,
                 Failures = 0, Requests = 0, Successes = 0\<rparr>"

definition zero_StatsDelta :: StatsDelta where
  "zero_StatsDelta = \<lparr>P50_d = 0, P90_d = 0, P99_d = 0,
                      Requests_d = 0, Failures_d = 0, Successes_d = 0\<rparr>"

section \<open>Counters, recorder and logs\<close>

definition RecordRequest :: "Tester \<Rightarrow> Tester" where
  "RecordRequest t = t\<lparr>stats := (stats t)\<lparr>Requests := Requests (stats t) + 1\<rparr>\<rparr>"

definition RecordSuccess :: "Tester \<Rightarrow> Tester" where
  "RecordSuccess t = t\<lparr>stats := (stats t)\<lparr>Successes := Successes (stats t) + 1\<rparr>\<rparr>"

definition RecordFailure :: "Tester \<Rightarrow> Tester" where
  "RecordFailure t = t\<lparr>stats := (stats t)\<lparr>Failures := Failures (stats t) + 1\<rparr>\<rparr>"

definition RecordTime :: "float64 \<Rightarrow> TimeRecorder \<Rightarrow> TimeRecorder" where
  "RecordTime executionTime r = r\<lparr>ExecutionsTime := ExecutionsTime r @ [executionTime]\<rparr>"

text \<open>\<open>fmt.Fprint\<close> returns the error of the writer, if any, beside the writer's new state.\<close>

definition Fprint :: "writer \<Rightarrow> string \<Rightarrow> error option \<times> writer" where
  "Fprint w msg =
     (case w of
        Discard \<Rightarrow> (None, Discard)
      | Buffer b \<Rightarrow> (None, Buffer (b @ msg))
      | Broken e \<Rightarrow> (Some e, Broken e))"

definition LogStdOut :: "string \<Rightarrow> Tester \<Rightarrow> Tester" where
  "LogStdOut msg t = t\<lparr>stdout := snd (Fprint (stdout t) msg)\<rparr>"

definition LogStdErr :: "string \<Rightarrow> Tester \<Rightarrow> Tester" where
  "LogStdErr msg t = t\<lparr>stderr := snd (Fprint (stderr t) msg)\<rparr>"

section \<open>The text protocol: \<open>fmt\<close>, \<open>strconv\<close>, \<open>strings\<close>, \<open>bufio\<close>\<close>

text \<open>
  The library functions the codec calls, modelled from their documented behaviour.
  A function that can panic returns an \<open>outcome\<close>; a Go result \<open>(v, err)\<close> is the sum
  \<open>error + 'a\<close> with \<open>Inl\<close> the error.
\<close>

datatype 'a outcome = Returns 'a | Panics string

definition index_out_of_range :: string where
  "index_out_of_range = ''runtime error: index out of range''"

text \<open>
  Sequencing: \<open>or_panic x k\<close> goes on with the value of \<open>x\<close> unless \<open>x\<close> panics;
  \<open>or_return r k\<close> is the statement \<open>v, err := r; if err != nil { return nil, err }\<close>
  followed by \<open>k v\<close>.
\<close>

definition or_panic :: "'a outcome \<Rightarrow> ('a \<Rightarrow> 'b outcome) \<Rightarrow> 'b outcome" where
  "or_panic x k = (case x of Panics m \<Rightarrow> Panics m | Returns v \<Rightarrow> k v)"

definition or_return :: "error + 'a \<Rightarrow> ('a \<Rightarrow> (error + 'b) outcome) \<Rightarrow> (error + 'b) outcome" where
  "or_return r k = (case r of Inl err \<Rightarrow> Returns (Inl err) | Inr v \<Rightarrow> k v)"

text \<open>\<open>xs[i]\<close> on a slice: a panic when \<open>i\<close> is not below the length.\<close>

definition slice_at :: "'a list \<Rightarrow> nat \<Rightarrow> 'a outcome" where
  "slice_at xs i = (if i < length xs then Returns (xs ! i) else Panics index_out_of_range)"

definition digit_char :: "nat \<Rightarrow> char" where
  "digit_char d = ''0123456789'' ! d"

definition is_digit :: "char \<Rightarrow> bool" where
  "is_digit c = (c \<in> set ''0123456789'')"

definition digit_val :: "char \<Rightarrow> int" where
  "digit_val c = of_char c - 48"

text \<open>The decimal digits of a number that is not negative.\<close>

function dec_digits :: "int \<Rightarrow> string" where
  "dec_digits n = (if n < 10 then [digit_char (nat n)]
                   else dec_digits (n div 10) @ [digit_char (nat (n mod 10))])"
  by pat_completeness auto
termination
  by (relation "measure nat") auto

declare dec_digits.simps [simp del]

text \<open>The verb \<open>%d\<close> on an integer.\<close>

definition fmt_d :: "int \<Rightarrow> string" where
  "fmt_d i = (if i < 0 then ''-'' @ dec_digits (- i) else dec_digits i)"

text \<open>Rounding to the nearest integer, a tie to the even one: the rule of \<open>%.3f\<close>.\<close>

definition round_half_even :: "rat \<Rightarrow> int" where
  "round_half_even y =
     (let f = \<lfloor>y\<rfloor>; d = y - of_int f
      in if d < 1 / 2 then f
         else if 1 / 2 < d then f + 1
         else if even f then f else f + 1)"

definition pad3 :: "int \<Rightarrow> string" where
  "pad3 n = [digit_char (nat (n div 100 mod 10)), digit_char (nat (n div 10 mod 10)),
             digit_char (nat (n mod 10))]"

text \<open>
  The verb \<open>%.3f\<close> on a finite float: the sign of a negative value (also when the digits
  round to zero), the integer part, a point and three digits.
\<close>

definition fmt_f3 :: "float64 \<Rightarrow> string" where
  "fmt_f3 x =
     (let n = round_half_even (\<bar>x\<bar> * 1000)
      in (if x < 0 then ''-'' else []) @ dec_digits (n div 1000) @ ''.'' @ pad3 (n mod 1000))"

text \<open>\<open>strings.Split(s, ",")\<close> for a one-byte separator: never the empty list.\<close>

fun Split :: "string \<Rightarrow> char \<Rightarrow> string list" where
  "Split [] sep = [[]]"
| "Split (c # cs) sep =
     (if c = sep then [] # Split cs sep
      else (case Split cs sep of [] \<Rightarrow> [[c]] | w # ws \<Rightarrow> (c # w) # ws))"

text \<open>
  \<open>strconv.Atoi\<close>: an optional sign and decimal digits. The digits are read from the
  left; the first byte that is not a digit is a syntax error, a value that leaves
  \<open>uint64\<close> on the way is a range error, as is a result outside \<open>int64\<close>.
\<close>

fun parse_uint :: "int \<Rightarrow> string \<Rightarrow> (bool + int)" where
  "parse_uint n [] = Inr n"
| "parse_uint n (c # cs) =
     (if \<not> is_digit c then Inl False
      else if 2 ^ 64 \<le> n * 10 + digit_val c then Inl True
      else parse_uint (n * 10 + digit_val c) cs)"

text \<open>The optional sign at the head of a number: whether it is \<open>-\<close>, and the rest.\<close>

fun strip_sign :: "string \<Rightarrow> bool \<times> string" where
  "strip_sign [] = (False, [])"
| "strip_sign (c # cs) =
     (if c = CHR ''-'' then (True, cs) else if c = CHR ''+'' then (False, cs)
      else (False, c # cs))"

definition Atoi :: "string \<Rightarrow> error + go_int" where
  "Atoi s =
     (case strip_sign s of (neg, ds) \<Rightarrow>
        if ds = [] then Inl (ErrSyntax ''Atoi'' s)
        else (case parse_uint 0 ds of
                Inl False \<Rightarrow> Inl (ErrSyntax ''Atoi'' s)
              | Inl True \<Rightarrow> Inl (ErrRange ''Atoi'' s)
              | Inr un \<Rightarrow>
                  if \<not> neg \<and> 2 ^ 63 \<le> un then Inl (ErrRange ''Atoi'' s)
                  else if neg \<and> 2 ^ 63 < un then Inl (ErrRange ''Atoi'' s)
                  else Inr (word_of_int (if neg then - un else un))))"

text \<open>
  \<open>strconv.ParseFloat(s, 64)\<close> on the decimal notation without exponent: an optional
  sign, digits, at most one point, at least one digit. This is the notation \<open>%.3f\<close>
  writes. The value is the rational the text denotes, its digits read from the left by
  \<open>value_from\<close> (the rounding to the nearest \<open>float64\<close> is not modelled). The other
  notations of Go (an exponent, a hexadecimal mantissa, underscores, \<open>Inf\<close>, \<open>NaN\<close>) are
  not modelled: they are reported as a syntax error here.
\<close>

definition value_from :: "int \<Rightarrow> string \<Rightarrow> int" where
  "value_from a ds = foldl (\<lambda>n c. n * 10 + digit_val c) a ds"

definition parse_decimal :: "string \<Rightarrow> float64 option" where
  "parse_decimal body =
     (let ip = takeWhile is_digit body
      in case dropWhile is_digit body of
           [] \<Rightarrow> if ip = [] then None else Some (of_int (value_from 0 ip))
         | c # r \<Rightarrow>
             (let fp = takeWhile is_digit r
              in if c \<noteq> CHR ''.'' \<or> dropWhile is_digit r \<noteq> [] \<or> ip @ fp = [] then None
                 else Some (of_int (value_from 0 (ip @ fp)) / 10 ^ length fp)))"

definition ParseFloat :: "string \<Rightarrow> error + float64" where
  "ParseFloat s =
     (case strip_sign s of (neg, body) \<Rightarrow>
        (case parse_decimal body of
           None \<Rightarrow> Inl (ErrSyntax ''ParseFloat'' s)
         | Some v \<Rightarrow> Inr (if neg then - v else v)))"

text \<open>
  \<open>bufio.Scanner\<close> with the default split function \<open>ScanLines\<close> over the whole text of
  the reader: the lines end at each \<open>\n\<close>, a last line without \<open>\n\<close> counts when it is
  not empty, and one trailing \<open>\r\<close> of a line is dropped. A line of
  \<open>MaxScanTokenSize\<close> bytes or more does not fit the buffer: the scan stops there with
  \<open>ErrTooLong\<close>.
\<close>

definition MaxScanTokenSize :: int where
  "MaxScanTokenSize = 64 * 1024"

definition raw_lines :: "string \<Rightarrow> string list" where
  "raw_lines text = (let ls = Split text (CHR 0x0A) in if last ls = [] then butlast ls else ls)"

definition dropCR :: "string \<Rightarrow> string" where
  "dropCR l = (if l \<noteq> [] \<and> last l = CHR 0x0D then butlast l else l)"

section \<open>The stats codec\<close>

text \<open>
  \<open>WriteStatsFile\<close> prints one record with the format
  \<open>"%s,%d,%d,%d,%.3f,%.3f,%.3f"\<close>: URL, Requests, Successes, Failures, P50, P90, P99.
  The mean is not written.
\<close>

definition stats_line :: "Stats \<Rightarrow> string" where
  "stats_line s =
     URL s @ '','' @ fmt_d (sint (Requests s)) @ '','' @ fmt_d (sint (Successes s)) @ '',''
       @ fmt_d (sint (Failures s)) @ '','' @ fmt_f3 (P50 s) @ '','' @ fmt_f3 (P90 s) @ '',''
       @ fmt_f3 (P99 s)"

definition WriteStatsFile :: "writer \<Rightarrow> Stats \<Rightarrow> error option \<times> writer" where
  "WriteStatsFile w s = Fprint w (stats_line s)"

text \<open>
  The body of the loop of \<open>ReadStatsFile\<close> on one line of text: the fields are taken
  by index from the result of \<open>strings.Split\<close>, each index expression before the
  conversion of its field, in the order of the source.
\<close>

definition ReadStatsFile_line :: "string \<Rightarrow> (error + Stats) outcome" where
  "ReadStatsFile_line l =
     (let pos = Split l (CHR '','') in
      or_panic (slice_at pos 0) (\<lambda>url.
      or_panic (slice_at pos 1) (\<lambda>dataRequests.
      or_return (Atoi dataRequests) (\<lambda>requests'.
      or_panic (slice_at pos 2) (\<lambda>dataSuccesses.
      or_return (Atoi dataSuccesses) (\<lambda>successes.
      or_panic (slice_at pos 3) (\<lambda>dataFailures.
      or_return (Atoi dataFailures) (\<lambda>failures.
      or_panic (slice_at pos 4) (\<lambda>dataP50.
      or_return (ParseFloat dataP50) (\<lambda>p50.
      or_panic (slice_at pos 5) (\<lambda>dataP90.
      or_return (ParseFloat dataP90) (\<lambda>p90.
      or_panic (slice_at pos 6) (\<lambda>dataP99.
      or_return (ParseFloat dataP99) (\<lambda>p99.
      Returns (Inr \<lparr>URL = url, Mean = 0, P50 = p50, P90 = p90, P99 = p99,
                     Failures = failures, Requests = requests',
                     Successes = successes\<rparr>)))))))))))))))"

text \<open>
  The loop \<open>for scanner.Scan()\<close> over the lines still to be scanned, with the slice
  \<open>stats\<close> built so far. The reader is the text it delivers; a reader that fails is not
  modelled.
\<close>

fun ReadStatsFile_loop :: "string list \<Rightarrow> Stats list \<Rightarrow> (error + Stats list) outcome" where
  "ReadStatsFile_loop [] stats' = Returns (Inr stats')"
| "ReadStatsFile_loop (raw # rest) stats' =
     (if MaxScanTokenSize \<le> int (length raw) then Returns (Inl ErrTooLong)
      else (case ReadStatsFile_line (dropCR raw) of
              Panics m \<Rightarrow> Panics m
            | Returns (Inl err) \<Rightarrow> Returns (Inl err)
            | Returns (Inr s) \<Rightarrow> ReadStatsFile_loop rest (stats' @ [s])))"

definition ReadStatsFile :: "string \<Rightarrow> (error + Stats list) outcome" where
  "ReadStatsFile r = ReadStatsFile_loop (raw_lines r) []"

definition CompareStats :: "Stats \<Rightarrow> Stats \<Rightarrow> StatsDelta" where
  "CompareStats stats1 stats2 =
     \<lparr>P50_d = P50 stats2 - P50 stats1,
      P90_d = P90 stats2 - P90 stats1,
      P99_d = P99 stats2 - P99 stats1,
      Requests_d = Requests stats2 - Requests stats1,
      Failures_d = Failures stats2 - Failures stats1,
      Successes_d = Successes stats2 - Successes stats1\<rparr>"

text \<open>
  \<open>CompareStatsFiles\<close>, over a file system \<open>fs\<close> that gives for a path the error of
  \<open>os.Open\<close> or the content of the file. The second \<open>os.Open\<close> is of \<open>path1\<close> again, the
  result of \<open>ReadStatsFile\<close> is dropped, and a panic of \<open>ReadStatsFile\<close> goes on to the
  caller.
\<close>

definition CompareStatsFiles ::
    "(string \<Rightarrow> error + string) \<Rightarrow> string \<Rightarrow> string \<Rightarrow> (StatsDelta \<times> error option) outcome" where
  "CompareStatsFiles fs path1 path2 =
     (case fs path1 of
        Inl err \<Rightarrow> Returns (zero_StatsDelta, Some err)
      | Inr f1 \<Rightarrow>
          (case ReadStatsFile f1 of
             Panics m \<Rightarrow> Panics m
           | Returns _ \<Rightarrow>
               (case fs path1 of
                  Inl err \<Rightarrow> Returns (zero_StatsDelta, Some err)
                | Inr f2 \<Rightarrow> Returns (zero_StatsDelta, None))))"

section \<open>Construction\<close>

text \<open>
  An \<open>Option\<close> is a function on the tester that may fail. \<open>net/url\<close> and \<open>flag\<close> are
  libraries: \<open>url.Parse\<close> is a parameter of \<open>NewTester\<close>, of which only the error and the
  field \<open>Host\<close> (and the text of the URL, for the message) are used; the flag values
  that \<open>fs.Parse\<close> leaves are a parameter of \<open>FromArgs\<close>, and the usage text that the
  flag set prints is left out.
\<close>

type_synonym Option = "Tester \<Rightarrow> error + Tester"

record url =
  Host :: string
  String :: string

record flags =
  flag_r :: go_int
  flag_g :: bool
  flag_s :: bool
  flag_c :: go_int
  flag_u :: string

definition ErrUnknownSubcommand :: error where
  "ErrUnknownSubcommand = ErrExternal ''expected run or cmp subcommands''"

definition FromArgs :: "(string list \<Rightarrow> flags) \<Rightarrow> string list \<Rightarrow> Option" where
  "FromArgs flag_Parse args t =
     (if length args < 1 then Inl ErrNoArgs
      else if hd args = ''run'' then
        (let fs = flag_Parse (tl args)
         in Inr (t\<lparr>URL_t := flag_u fs, requests := flag_r fs, Graphs := flag_g fs,
                   Concurrency := flag_c fs, ExportStats := flag_s fs\<rparr>))
      else Inl ErrUnknownSubcommand)"

definition WithRequests :: "go_int \<Rightarrow> Option" where
  "WithRequests reqs t = Inr (t\<lparr>requests := reqs\<rparr>)"

definition WithHTTPUserAgent :: "string \<Rightarrow> Option" where
  "WithHTTPUserAgent ua t = Inr (t\<lparr>userAgent := ua\<rparr>)"

definition WithHTTPClient :: "HTTPClient \<Rightarrow> Option" where
  "WithHTTPClient c t = Inr (t\<lparr>client := c\<rparr>)"

definition WithStdout :: "writer option \<Rightarrow> Option" where
  "WithStdout w t = (case w of None \<Rightarrow> Inl ErrValueCannotBeNil | Some w' \<Rightarrow> Inr (t\<lparr>stdout := w'\<rparr>))"

definition WithStderr :: "writer option \<Rightarrow> Option" where
  "WithStderr w lg = (case w of None \<Rightarrow> Inl ErrValueCannotBeNil | Some w' \<Rightarrow> Inr (lg\<lparr>stderr := w'\<rparr>))"

definition WithConcurrency :: "go_int \<Rightarrow> Option" where
  "WithConcurrency c lg = Inr (lg\<lparr>Concurrency := c\<rparr>)"

definition WithURL :: "string \<Rightarrow> Option" where
  "WithURL u t = Inr (t\<lparr>URL_t := u\<rparr>)"

definition WithOutputPath :: "string \<Rightarrow> Option" where
  "WithOutputPath outputPath t = Inr (t\<lparr>OutputPath := outputPath\<rparr>)"

definition WithGraphs :: "bool \<Rightarrow> Option" where
  "WithGraphs graphs t = Inr (t\<lparr>Graphs := graphs\<rparr>)"

definition WithExportStats :: "bool \<Rightarrow> Option" where
  "WithExportStats exportStats t = Inr (t\<lparr>ExportStats := exportStats\<rparr>)"

text \<open>The tester before the options: the composite literal at the head of \<open>NewTester\<close>.\<close>

definition default_tester :: Tester where
  "default_tester =
     \<lparr>Concurrency = DefaultConcurrency, client = DefaultHTTPClient, EndAt = 0,
      ExportStats = False, Graphs = False, OutputPath = DefaultOutputPath,
      requests = DefaultNumRequests, startAt = 0, stdout = Buffer [], stderr = Buffer [],
      URL_t = [], userAgent = DefaultUserAgent, stats = zero_Stats,
      TimeRecorder = \<lparr>ExecutionsTime = []\<rparr>\<rparr>"

text \<open>The loop \<open>for _, o := range opts\<close>: the first option that fails ends it.\<close>

fun apply_opts :: "Option list \<Rightarrow> Tester \<Rightarrow> error + Tester" where
  "apply_opts [] tester = Inr tester"
| "apply_opts (o' # opts) tester =
     (case o' tester of Inl err \<Rightarrow> Inl err | Inr tester' \<Rightarrow> apply_opts opts tester')"

definition NewTester :: "(string \<Rightarrow> error + url) \<Rightarrow> Option list \<Rightarrow> error + Tester" where
  "NewTester url_Parse opts =
     (case apply_opts opts default_tester of
        Inl err \<Rightarrow> Inl err
      | Inr tester \<Rightarrow>
          if URL_t tester = [] then Inl ErrNoURL
          else (case url_Parse (URL_t tester) of
                  Inl err \<Rightarrow> Inl err
                | Inr u \<Rightarrow>
                    if Host u = [] then Inl (ErrInvalidURL (String u))
                    else if requests tester <s 1 then Inl (ErrInvalidRequests (requests tester))
                    else Inr tester))"

section \<open>Percentile ranks\<close>

text \<open>
  \<open>int(math.Round(float64(len(times)) * p))\<close> in IEEE double arithmetic, on integers.
  \<open>rne P s\<close> is \<open>P / 2 ^ s\<close> rounded to the nearest integer, a tie to the even one;
  \<open>f64_round P\<close> is the integer \<open>P\<close> rounded to 53 significant bits, which is how
  \<open>float64(n)\<close> and the product of two doubles are rounded. The constant \<open>p\<close> is the
  double \<open>M / 2 ^ 53\<close>; the product \<open>float64(n) * p\<close> is \<open>f64_round (f64_round n * M) / 2 ^ 53\<close>,
  and \<open>math.Round\<close> of a value \<open>R / 2 ^ 53\<close> that is not negative is
  \<open>(2 * R + 2 ^ 53) div 2 ^ 54\<close> (half away from zero).
\<close>

definition rne :: "int \<Rightarrow> nat \<Rightarrow> int" where
  "rne P s =
     (let q = P div 2 ^ s; r = P mod 2 ^ s
      in if 2 * r < 2 ^ s then q
         else if 2 ^ s < 2 * r then q + 1
         else if even q then q else q + 1)"

definition f64_round :: "int \<Rightarrow> int" where
  "f64_round P = (let s = nat (bitlen P - 53) in rne P s * 2 ^ s)"

definition f64_0_5 :: int where "f64_0_5 = 4503599627370496"
definition f64_0_9 :: int where "f64_0_9 = 8106479329266893"
definition f64_0_99 :: int where "f64_0_99 = 8917127262193582"

definition round_len_times :: "int \<Rightarrow> int \<Rightarrow> int" where
  "round_len_times M n = (2 * f64_round (f64_round n * M) + 2 ^ 53) div 2 ^ 54"

text \<open>\<open>times[i]\<close> with a signed index.\<close>

definition slice_at_int :: "'a list \<Rightarrow> int \<Rightarrow> 'a outcome" where
  "slice_at_int xs i =
     (if 0 \<le> i \<and> i < int (length xs) then Returns (xs ! nat i)
      else Panics index_out_of_range)"

section \<open>SetMetrics\<close>

text \<open>
  \<open>sort.Slice\<close> sorts the slice of the recorder in place. The samples being finite
  floats, \<open><\<close> is a linear order on them and the sorted slice is the one sorted
  permutation of the samples, whatever the algorithm: \<open>sort\<close>.
\<close>

definition SetMetrics :: "Tester \<Rightarrow> (error option \<times> Tester) outcome" where
  "SetMetrics t =
     (if length (ExecutionsTime (TimeRecorder t)) < 1 then Returns (Some ErrTimeNotRecorded, t)
      else
        (let times = sort (ExecutionsTime (TimeRecorder t));
             n = int (length times)
         in or_panic (slice_at_int times (round_len_times f64_0_5 n - 1)) (\<lambda>p50.
            or_panic (slice_at_int times (round_len_times f64_0_9 n - 1)) (\<lambda>p90.
            or_panic (slice_at_int times (round_len_times f64_0_99 n - 1)) (\<lambda>p99.
            (let (nreq, totalTime) =
                   foldl (\<lambda>(nreq, totalTime) v. (nreq + 1, totalTime + v)) (0, 0) times
             in Returns (None,
                  t\<lparr>TimeRecorder := (TimeRecorder t)\<lparr>ExecutionsTime := times\<rparr>,
                    stats := (stats t)\<lparr>P50 := p50, P90 := p90, P99 := p99,
                                       URL := URL_t t, Mean := totalTime / nreq\<rparr>\<rparr>)))))))"

section \<open>The worker\<close>

text \<open>
  What the network answers to one call is an input of the model: \<open>http.NewRequest\<close> fails,
  \<open>client.Do\<close> fails, or a response arrives with a status code after an elapsed time in
  nanoseconds.
\<close>

datatype call = BuildError string | TransportError string | Response int int

definition StatusOK :: int where "StatusOK = 200"

text \<open>\<open>float64(elapsedTime.Nanoseconds()) / 1000000.0\<close>\<close>

definition elapsed_ms :: "int \<Rightarrow> float64" where
  "elapsed_ms ns = of_int ns / 1000000"

definition unexpected_status :: "int \<Rightarrow> string" where
  "unexpected_status code = ''unexpected status code '' @ fmt_d code @ [CHR 0x0A]"

definition record_time :: "float64 \<Rightarrow> Tester \<Rightarrow> Tester" where
  "record_time x t = t\<lparr>TimeRecorder := RecordTime x (TimeRecorder t)\<rparr>"

text \<open>
  \<open>DoRequest\<close> as one worker runs it from start to end: the list holds the answers to
  the calls of the tokens the worker receives before the channel is closed. The body of
  the loop is
  \<^item> \<open>RecordRequest\<close>;
  \<^item> on an error of \<open>NewRequest\<close>: log, \<open>RecordFailure\<close>, return;
  \<^item> on an error of \<open>client.Do\<close>: \<open>RecordFailure\<close>, log, return;
  \<^item> \<open>RecordTime\<close>;
  \<^item> on a status other than 200: log, \<open>RecordFailure\<close>, return;
  \<^item> \<open>RecordSuccess\<close>, and the next token.
\<close>

fun DoRequest :: "call list \<Rightarrow> Tester \<Rightarrow> Tester" where
  "DoRequest [] t = t"
| "DoRequest (BuildError err # work) t =
     RecordFailure (LogStdErr err (RecordRequest t))"
| "DoRequest (TransportError err # work) t =
     LogStdErr err (RecordFailure (RecordRequest t))"
| "DoRequest (Response code ns # work) t =
     (let t1 = record_time (elapsed_ms ns) (RecordRequest t)
      in if code \<noteq> StatusOK then RecordFailure (LogStdErr (unexpected_status code) t1)
         else DoRequest work (RecordSuccess t1))"

section \<open>Run\<close>

text \<open>
  The workers of one run share the tester and take turns: each call of a \<open>Record...\<close>
  method is atomic (the mutexes), and a run is an interleaving of such steps. A worker is
  at the head of its loop (blocked on the channel), has received a token, has recorded the
  request and waits for the network, has recorded the time of a response with a status
  code, or has returned. The producer hands over \<open>requests\<close> tokens and closes the
  channel: \<open>tokens\<close> counts those not yet received. The channel is the one \<open>NewTester\<close>
  made, open and empty: the model is of the one run of a tester.
\<close>

datatype pc = LoopHead | Received | Calling | Timed int | Exited

record run_state =
  tester :: Tester
  tokens :: nat
  pcs :: "pc list"

text \<open>
  One step of worker \<open>i\<close>; \<open>c\<close> is the answer of the network, read only by the step that
  leaves \<open>Calling\<close>. A worker that has returned does nothing more.
\<close>

definition step :: "nat \<times> call \<Rightarrow> run_state \<Rightarrow> run_state" where
  "step e st =
     (let i = fst e; c = snd e; t = tester st
      in if length (pcs st) \<le> i then st
         else (case pcs st ! i of
                 LoopHead \<Rightarrow>
                   if 0 < tokens st then st\<lparr>tokens := tokens st - 1, pcs := (pcs st)[i := Received]\<rparr>
                   else st\<lparr>pcs := (pcs st)[i := Exited]\<rparr>
               | Received \<Rightarrow> st\<lparr>tester := RecordRequest t, pcs := (pcs st)[i := Calling]\<rparr>
               | Calling \<Rightarrow>
                   (case c of
                      BuildError err \<Rightarrow>
                        st\<lparr>tester := RecordFailure (LogStdErr err t), pcs := (pcs st)[i := Exited]\<rparr>
                    | TransportError err \<Rightarrow>
                        st\<lparr>tester := LogStdErr err (RecordFailure t), pcs := (pcs st)[i := Exited]\<rparr>
                    | Response code ns \<Rightarrow>
                        st\<lparr>tester := record_time (elapsed_ms ns) t, pcs := (pcs st)[i := Timed code]\<rparr>)
               | Timed code \<Rightarrow>
                   if code \<noteq> StatusOK
                   then st\<lparr>tester := RecordFailure (LogStdErr (unexpected_status code) t),
                           pcs := (pcs st)[i := Exited]\<rparr>
                   else st\<lparr>tester := RecordSuccess t, pcs := (pcs st)[i := LoopHead]\<rparr>
               | Exited \<Rightarrow> st))"

definition exec :: "(nat \<times> call) list \<Rightarrow> run_state \<Rightarrow> run_state" where
  "exec sched st = fold step sched st"

definition all_exited :: "run_state \<Rightarrow> bool" where
  "all_exited st = list_all (\<lambda>p. p = Exited) (pcs st)"

text \<open>
  What a run meets outside the tester: the schedule of the workers with the answers of
  the network, the clock, the plot library, \<open>os.Create\<close> (an error or the new file) and
  the text of \<open>EndAt.Round(time.Millisecond)\<close> under \<open>%v\<close>.
\<close>

record run_env =
  schedule :: "(nat \<times> call) list"
  now :: int
  since_start :: int
  Boxplot_result :: "error option"
  Histogram_result :: "error option"
  Create_result :: "error + writer"
  fmt_duration :: "int \<Rightarrow> string"

text \<open>
  The result of \<open>Run\<close>: it waits for the workers for ever (the schedule ends before all
  workers have returned), panics, or returns an error or nil, with the tester and the
  stats file as they are then.
\<close>

datatype run_result =
    Waiting
  | RunPanics string
  | RunReturns "error option" Tester "writer option"

definition report :: "run_env \<Rightarrow> Tester \<Rightarrow> Tester" where
  "report env t =
     LogStdOut (''P50: '' @ fmt_f3 (P50 (stats t)) @ ''ms P90: '' @ fmt_f3 (P90 (stats t))
                  @ ''ms P99: '' @ fmt_f3 (P99 (stats t)) @ ''ms'' @ [CHR 0x0A])
    (LogStdOut (''Requests: '' @ fmt_d (sint (Requests (stats t))) @ '' Success: ''
                  @ fmt_d (sint (Successes (stats t))) @ '' Failures: ''
                  @ fmt_d (sint (Failures (stats t))) @ [CHR 0x0A])
    (LogStdOut (''The benchmark of '' @ URL_t t @ '' site took ''
                  @ fmt_duration env (EndAt t) @ [CHR 0x0A]) t))"

text \<open>\<open>Run\<close> from \<open>t.wg.Wait()\<close> on, all workers having returned.\<close>

definition Run_finish :: "run_env \<Rightarrow> Tester \<Rightarrow> run_result" where
  "Run_finish env t0 =
     (let t = t0\<lparr>EndAt := since_start env\<rparr>
      in case SetMetrics t of
           Panics m \<Rightarrow> RunPanics m
         | Returns (Some err, t') \<Rightarrow> RunReturns (Some err) t' None
         | Returns (None, t') \<Rightarrow>
             if Graphs t' \<and> Boxplot_result env \<noteq> None
               then RunReturns (Boxplot_result env) t' None
             else if Graphs t' \<and> Histogram_result env \<noteq> None
               then RunReturns (Histogram_result env) t' None
             else if ExportStats t' then
               (case Create_result env of
                  Inl err \<Rightarrow> RunReturns (Some err) t' None
                | Inr file \<Rightarrow>
                    (case WriteStatsFile file (stats t') of
                       (Some err, file') \<Rightarrow> RunReturns (Some err) t' (Some file')
                     | (None, file') \<Rightarrow> RunReturns None (report env t') (Some file')))
             else RunReturns None (report env t') None)"

text \<open>
  \<open>Run\<close>: \<open>wg.Add\<close> panics on a negative count; the workers start at the head of their
  loops and the producer holds \<open>requests\<close> tokens (none when \<open>requests\<close> is below 1).
\<close>

definition start :: "run_env \<Rightarrow> Tester \<Rightarrow> run_state" where
  "start env t =
     \<lparr>tester = t\<lparr>startAt := now env\<rparr>, tokens = nat (sint (requests t)),
      pcs = replicate (nat (sint (Concurrency t))) LoopHead\<rparr>"

definition Run :: "run_env \<Rightarrow> Tester \<Rightarrow> run_result" where
  "Run env t =
     (if Concurrency t <s 0 then RunPanics ''sync: negative WaitGroup counter''
      else
        (let st = exec (schedule env) (start env t)
         in if all_exited st then Run_finish env (tester st) else Waiting))"

section \<open>Vocabulary of the statements\<close>

text \<open>
  The calls one worker performs out of the answers it would get: those up to and with
  the first that is not a response with status 200.
\<close>

definition ok :: "call \<Rightarrow> bool" where
  "ok c = (case c of Response code ns \<Rightarrow> code = StatusOK | _ \<Rightarrow> False)"

definition performed :: "call list \<Rightarrow> call list" where
  "performed work = takeWhile ok work @ take 1 (dropWhile ok work)"

text \<open>The latency of a call that got a response, whatever the status.\<close>

definition latency :: "call \<Rightarrow> float64 list" where
  "latency c = (case c of Response code ns \<Rightarrow> [elapsed_ms ns] | _ \<Rightarrow> [])"

definition balanced :: "Tester \<Rightarrow> bool" where
  "balanced t = (Requests (stats t) = Successes (stats t) + Failures (stats t))"

text \<open>
  The steps of worker \<open>i\<close> when it runs alone on the answers \<open>work\<close>, one token for
  each: receive, \<open>RecordRequest\<close>, the call, and the check of the status of a response.
  The answer in a step that reads none is \<open>idle\<close>.
\<close>

definition idle :: call where "idle = TransportError []"

fun solo :: "nat \<Rightarrow> call list \<Rightarrow> (nat \<times> call) list" where
  "solo i [] = [(i, idle)]"
| "solo i (BuildError err # work) = [(i, idle), (i, idle), (i, BuildError err)]"
| "solo i (TransportError err # work) = [(i, idle), (i, idle), (i, TransportError err)]"
| "solo i (Response code ns # work) =
     (i, idle) # (i, idle) # (i, Response code ns) # (i, idle)
       # (if code = StatusOK then solo i work else [])"

text \<open>
  A schedule that lets each of \<open>k\<close> workers take three steps in turn: with the answer
  \<open>idle\<close> a worker has returned after three steps.
\<close>

definition drain :: "nat \<Rightarrow> (nat \<times> call) list" where
  "drain k = concat (map (\<lambda>i. [(i, idle), (i, idle), (i, idle)]) [0..<k])"

text \<open>The tester as the workers leave it.\<close>

definition after_workers :: "run_env \<Rightarrow> Tester \<Rightarrow> Tester" where
  "after_workers env t = tester (exec (schedule env) (start env t))"

text \<open>A worker between \<open>RecordRequest\<close> and the call of \<open>RecordSuccess\<close> or \<open>RecordFailure\<close>.\<close>

definition in_flight :: "pc \<Rightarrow> bool" where
  "in_flight p = (case p of Calling \<Rightarrow> True | Timed code \<Rightarrow> True | _ \<Rightarrow> False)"

text \<open>The invariant of a run: every request recorded is classified or in flight.\<close>

definition counted :: "run_state \<Rightarrow> bool" where
  "counted st = (Requests (stats (tester st)) =
     Successes (stats (tester st)) + Failures (stats (tester st))
       + of_nat (length (filter in_flight (pcs st))))"






text \<open>A tester and an environment for the examples.\<close>

definition fake_tester :: Tester where
  "fake_tester = default_tester\<lparr>URL_t := ''http://fake.url''\<rparr>"

definition fake_env :: "(nat \<times> call) list \<Rightarrow> run_env" where
  "fake_env sched =
     \<lparr>schedule = sched, now = 0, since_start = 7000000, Boxplot_result = None,
      Histogram_result = None, Create_result = Inr (Buffer []),
      fmt_duration = (\<lambda>d. fmt_d (d div 1000000) @ ''ms'')\<rparr>"

definition fake_url_Parse :: "string \<Rightarrow> error + url" where
  "fake_url_Parse s =
     (if s = ''http://fake.url'' then Inr \<lparr>Host = ''fake.url'', String = s\<rparr>
      else if s = ''bogus-no-host://'' then Inr \<lparr>Host = [], String = s\<rparr>
      else Inl (ErrExternal ''parse''))"



text \<open>
  Two workers and three tokens: worker 0 gets a 200, worker 1 a 418 and returns, worker 0
  takes the last token and meets a timeout.
\<close>

definition two_workers :: Tester where
  "two_workers = fake_tester\<lparr>Concurrency := 2, requests := 3\<rparr>"

definition mixed_schedule :: "(nat \<times> call) list" where
  "mixed_schedule =
     [(0, idle), (1, idle), (0, idle), (1, idle),
      (0, Response 200 1000000), (1, Response 418 5000000), (1, idle), (0, idle),
      (0, idle), (0, idle), (0, TransportError ''timeout''), (1, idle)]"

text \<open>One worker, one token, and the call times out.\<close>

definition failing_schedule :: "(nat \<times> call) list" where
  "failing_schedule = [(0, idle), (0, idle), (0, TransportError ''timeout'')]"


section \<open>The percentiles of SetMetrics\<close>

subsection \<open>Rounding to the nearest, ties to even\<close>






subsection \<open>The rank in double arithmetic is the exact rank\<close>

text \<open>
  The three constants are doubles: a significand of 53 bits over \<open>2 ^ 53\<close>, the nearest
  to \<open>1/2\<close>, \<open>9/10\<close> and \<open>99/100\<close>.
\<close>

lemma f64_constants_nearest:
  "\<bar>2 * f64_0_5 - 1 * 2 ^ 53\<bar> = 0 \<and> \<bar>10 * f64_0_9 - 9 * 2 ^ 53\<bar> < 5 \<and>
   \<bar>100 * f64_0_99 - 99 * 2 ^ 53\<bar> < 50 \<and>
   2 ^ 52 \<le> f64_0_5 \<and> f64_0_5 < 2 ^ 53 \<and> 2 ^ 52 \<le> f64_0_9 \<and> f64_0_9 < 2 ^ 53 \<and>
   2 ^ 52 \<le> f64_0_99 \<and> f64_0_99 < 2 ^ 53"
  by (simp add: f64_0_5_def f64_0_9_def f64_0_99_def)







subsection \<open>SetMetrics\<close>








text \<open>The same samples recorded in another order give the same stats.\<close>

lemma SetMetrics_sorts_example:
  "SetMetrics (fake_tester\<lparr>TimeRecorder := \<lparr>ExecutionsTime = [13, 5, 11, 6, 10, 7, 8]\<rparr>\<rparr>) =
     Returns (None, fake_tester\<lparr>TimeRecorder := \<lparr>ExecutionsTime = [5, 6, 7, 8, 10, 11, 13]\<rparr>,
       stats := zero_Stats\<lparr>P50 := 8, P90 := 11, P99 := 13, URL := ''http://fake.url'',
                            Mean := 60 / 7\<rparr>\<rparr>)"
  by code_simp

text \<open>The samples of the test of the mean: the mean is exactly 100.\<close>

lemma SetMetrics_mean_example:
  "SetMetrics (fake_tester\<lparr>TimeRecorder := \<lparr>ExecutionsTime = [50, 100, 200, 100, 50]\<rparr>\<rparr>) =
     Returns (None, fake_tester\<lparr>TimeRecorder := \<lparr>ExecutionsTime = [50, 50, 100, 100, 200]\<rparr>,
       stats := zero_Stats\<lparr>P50 := 100, P90 := 200, P99 := 200, URL := ''http://fake.url'',
                            Mean := 100\<rparr>\<rparr>)"
  by code_simp

section \<open>The loop of a worker\<close>

lemmas worker_defs =
  RecordRequest_def RecordSuccess_def RecordFailure_def RecordTime_def record_time_def
  LogStdErr_def LogStdOut_def

lemma performed_Nil [simp]: "performed [] = []"
  by (simp add: performed_def)

lemma performed_Cons: "performed (c # work) = (if ok c then c # performed work else [c])"
  by (simp add: performed_def)

lemma ok_Response [simp]: "ok (Response code ns) = (code = StatusOK)"
  and ok_BuildError [simp]: "\<not> ok (BuildError e)"
  and ok_TransportError [simp]: "\<not> ok (TransportError e)"
  by (simp_all add: ok_def)

lemma DoRequest_performed: "DoRequest (performed work) t = DoRequest work t"
  by (induction work t rule: DoRequest.induct) (simp_all add: performed_Cons Let_def)

lemma performed_append_failure:
  "list_all ok pre \<Longrightarrow> \<not> ok c \<Longrightarrow> performed (pre @ c # rest) = pre @ [c]"
  by (induction pre) (simp_all add: performed_Cons)

lemma performed_all_ok: "list_all ok work \<Longrightarrow> performed work = work"
  by (induction work) (simp_all add: performed_Cons)

lemma DoRequest_samples:
  "ExecutionsTime (TimeRecorder (DoRequest work t)) =
     ExecutionsTime (TimeRecorder t) @ concat (map latency (performed work))"
  by (induction work t rule: DoRequest.induct)
     (simp_all add: performed_Cons Let_def latency_def worker_defs)

lemma DoRequest_Requests:
  "Requests (stats (DoRequest work t)) = Requests (stats t) + of_nat (length (performed work))"
  by (induction work t rule: DoRequest.induct)
     (simp_all add: performed_Cons Let_def worker_defs)

lemma DoRequest_Successes:
  "Successes (stats (DoRequest work t)) =
     Successes (stats t) + of_nat (length (filter ok (performed work)))"
  by (induction work t rule: DoRequest.induct)
     (simp_all add: performed_Cons Let_def worker_defs)

lemma DoRequest_Failures:
  "Failures (stats (DoRequest work t)) =
     Failures (stats t) + of_nat (length (filter (\<lambda>c. \<not> ok c) (performed work)))"
  by (induction work t rule: DoRequest.induct)
     (simp_all add: performed_Cons Let_def worker_defs)

lemma filter_ok_all: "list_all ok pre \<Longrightarrow> filter ok pre = pre"
  by (induction pre) simp_all

lemma filter_not_ok_all: "list_all ok pre \<Longrightarrow> filter (\<lambda>c. \<not> ok c) pre = []"
  by (induction pre) simp_all

text \<open>
  Claim C8. In the loop of \<open>DoRequest\<close> any error on a call, of the transport or a status
  other than 200, ends the loop at once: when the calls before \<open>c\<close> all succeed and \<open>c\<close>
  does not, the worker does what it does on the calls up to \<open>c\<close> alone, whatever the
  answers \<open>rest\<close> to later calls would be; it has recorded one request for each call up
  to \<open>c\<close>, one success for each call before \<open>c\<close>, and one failure. When every call
  succeeds the worker goes on to the next token each time: it records a request and a
  success for every call, and no failure.
\<close>

theorem worker_stops_at_first_failure:
  "(list_all ok pre \<and> \<not> ok c \<longrightarrow>
      DoRequest (pre @ c # rest) t = DoRequest (pre @ [c]) t \<and>
      Requests (stats (DoRequest (pre @ c # rest) t)) = Requests (stats t) + of_nat (length pre) + 1 \<and>
      Successes (stats (DoRequest (pre @ c # rest) t)) = Successes (stats t) + of_nat (length pre) \<and>
      Failures (stats (DoRequest (pre @ c # rest) t)) = Failures (stats t) + 1) \<and>
   (list_all ok work \<longrightarrow>
      Requests (stats (DoRequest work t)) = Requests (stats t) + of_nat (length work) \<and>
      Successes (stats (DoRequest work t)) = Successes (stats t) + of_nat (length work) \<and>
      Failures (stats (DoRequest work t)) = Failures (stats t))"
proof (intro conjI impI)
  assume h: "list_all ok pre \<and> \<not> ok c"
  then have p: "performed (pre @ c # rest) = pre @ [c]"
    by (simp add: performed_append_failure)
  from h have q: "performed (pre @ [c]) = pre @ [c]"
    by (simp add: performed_append_failure)
  show "DoRequest (pre @ c # rest) t = DoRequest (pre @ [c]) t"
    using DoRequest_performed [of "pre @ c # rest" t] DoRequest_performed [of "pre @ [c]" t] p q
    by simp
  show "Requests (stats (DoRequest (pre @ c # rest) t)) = Requests (stats t) + of_nat (length pre) + 1"
    by (simp add: DoRequest_Requests p)
  show "Successes (stats (DoRequest (pre @ c # rest) t)) = Successes (stats t) + of_nat (length pre)"
    using h by (simp add: DoRequest_Successes p filter_ok_all)
  show "Failures (stats (DoRequest (pre @ c # rest) t)) = Failures (stats t) + 1"
    using h by (simp add: DoRequest_Failures p filter_not_ok_all)
next
  assume h: "list_all ok work"
  then have p: "performed work = work" by (rule performed_all_ok)
  show "Requests (stats (DoRequest work t)) = Requests (stats t) + of_nat (length work)"
    by (simp add: DoRequest_Requests p)
  show "Successes (stats (DoRequest work t)) = Successes (stats t) + of_nat (length work)"
    using h by (simp add: DoRequest_Successes p filter_ok_all)
  show "Failures (stats (DoRequest work t)) = Failures (stats t)"
    using h by (simp add: DoRequest_Failures p filter_not_ok_all)
qed

text \<open>Two calls with status 200, then a 418, then a call that is never made.\<close>

theorem worker_stops_at_first_failure_witness:
  "list_all ok [Response 200 1000000, Response 200 2000000] \<and> \<not> ok (Response 418 5000000) \<and>
   DoRequest ([Response 200 1000000, Response 200 2000000] @ Response 418 5000000 # [Response 200 3000000]) fake_tester
     = DoRequest ([Response 200 1000000, Response 200 2000000] @ [Response 418 5000000]) fake_tester \<and>
   Requests (stats (DoRequest ([Response 200 1000000, Response 200 2000000] @ Response 418 5000000 # [Response 200 3000000]) fake_tester)) = 3 \<and>
   Successes (stats (DoRequest ([Response 200 1000000, Response 200 2000000] @ Response 418 5000000 # [Response 200 3000000]) fake_tester)) = 2 \<and>
   Failures (stats (DoRequest ([Response 200 1000000, Response 200 2000000] @ Response 418 5000000 # [Response 200 3000000]) fake_tester)) = 1 \<and>
   list_all ok [Response 200 1000000, Response 200 2000000, Response 200 3000000] \<and>
   Requests (stats (DoRequest [Response 200 1000000, Response 200 2000000, Response 200 3000000] fake_tester)) = 3 \<and>
   Successes (stats (DoRequest [Response 200 1000000, Response 200 2000000, Response 200 3000000] fake_tester)) = 3 \<and>
   Failures (stats (DoRequest [Response 200 1000000, Response 200 2000000, Response 200 3000000] fake_tester)) = 0"
proof -
  have h1: "list_all ok [Response 200 1000000, Response 200 2000000] \<and> \<not> ok (Response 418 5000000)"
    by (simp add: StatusOK_def)
  have h2: "list_all ok [Response 200 1000000, Response 200 2000000, Response 200 3000000]"
    by (simp add: StatusOK_def)
  have z: "Requests (stats fake_tester) = 0" "Successes (stats fake_tester) = 0"
    "Failures (stats fake_tester) = 0"
    by (simp_all add: fake_tester_def default_tester_def zero_Stats_def)
  show ?thesis
    using h1 h2 z
      worker_stops_at_first_failure [of "[Response 200 1000000, Response 200 2000000]"
        "Response 418 5000000" "[Response 200 3000000]" fake_tester
        "[Response 200 1000000, Response 200 2000000, Response 200 3000000]"]
    by simp
qed

text \<open>
  Claim C3 says that a call with a status other than 200 contributes no latency sample,
  so that the recorder stays empty when no call reaches a 200. \<open>RecordTime\<close> stands
  before the check of the status: one call answered with 418 is a failure, no success,
  and its latency is in the recorder (\<open>TestNonOKStatusRecordedAsFailure\<close> relies on it:
  \<open>Run\<close> must not fail with "no execution time recorded" there).
\<close>

theorem non_200_response_is_timed:
  "ExecutionsTime (TimeRecorder (DoRequest [Response 418 5000000] fake_tester)) \<noteq> [] \<and>
   Successes (stats (DoRequest [Response 418 5000000] fake_tester)) = 0 \<and>
   Failures (stats (DoRequest [Response 418 5000000] fake_tester)) = 1"
  by (simp add: StatusOK_def worker_defs fake_tester_def default_tester_def zero_Stats_def Let_def)

text \<open>
  Claim C3, amended. A latency sample is appended for every call the worker performs
  that gets a response, with status 200 or not, in the order of the calls, and for no
  other; a call is a success when the response has status 200 and a failure otherwise.
  So only a worker whose calls all fail before a response arrives leaves the recorder
  as it was.
\<close>

theorem latency_recorded_for_every_response:
  "ExecutionsTime (TimeRecorder (DoRequest work t)) =
     ExecutionsTime (TimeRecorder t) @ concat (map latency (performed work)) \<and>
   Successes (stats (DoRequest work t)) =
     Successes (stats t) + of_nat (length (filter ok (performed work))) \<and>
   Failures (stats (DoRequest work t)) =
     Failures (stats t) + of_nat (length (filter (\<lambda>c. \<not> ok c) (performed work)))"
  by (simp add: DoRequest_samples DoRequest_Successes DoRequest_Failures)

section \<open>One worker alone\<close>

text \<open>
  The two descriptions of the worker agree: when worker \<open>i\<close> takes all its steps in a
  row, with a token for every answer, the tester it leaves is that of \<open>DoRequest\<close>,
  and the worker has returned.
\<close>

lemma solo_is_DoRequest:
  "i < length (pcs st) \<Longrightarrow> pcs st ! i = LoopHead \<Longrightarrow> tokens st = length work \<Longrightarrow>
   tester (exec (solo i work) st) = DoRequest work (tester st) \<and>
   pcs (exec (solo i work) st) = (pcs st)[i := Exited]"
proof (induction i work arbitrary: st rule: solo.induct)
  case (1 i)
  then show ?case by (simp add: exec_def step_def Let_def)
next
  case (2 i err work)
  then show ?case by (simp add: exec_def step_def Let_def)
next
  case (3 i err work)
  then show ?case by (simp add: exec_def step_def Let_def)
next
  case (4 i code ns work)
  show ?case
  proof (cases "code = StatusOK")
    case False
    with 4 show ?thesis by (simp add: exec_def step_def Let_def)
  next
    case True
    define st' where "st' = st\<lparr>tester := RecordSuccess (record_time (elapsed_ms ns) (RecordRequest (tester st))),
      tokens := tokens st - 1, pcs := (pcs st)[i := LoopHead]\<rparr>"
    have s: "exec [(i, idle), (i, idle), (i, Response code ns), (i, idle)] st = st'"
      using 4(2,3,4) True by (simp add: exec_def step_def Let_def st'_def)
    have "i < length (pcs st')" "pcs st' ! i = LoopHead" "tokens st' = length work"
      using 4(2,3,4) by (simp_all add: st'_def)
    from 4(1) [OF True this]
    have "tester (exec (solo i work) st') = DoRequest work (tester st') \<and>
      pcs (exec (solo i work) st') = (pcs st')[i := Exited]" .
    moreover have "exec (solo i (Response code ns # work)) st = exec (solo i work) st'"
      using True s by (simp add: exec_def)
    ultimately show ?thesis by (simp add: st'_def True Let_def)
  qed
qed

section \<open>Run returns\<close>

text \<open>
  \<open>Run\<close> does not wait for ever when the workers get their turns: under the schedule
  \<open>drain\<close> every worker returns, and \<open>Run\<close> goes on to \<open>SetMetrics\<close>.
\<close>

lemma exec_append: "exec (a @ b) st = exec b (exec a st)"
  by (simp add: exec_def)

lemma three_steps_exit:
  assumes "i < length (pcs st)" and "pcs st ! i = LoopHead"
  shows "pcs (exec [(i, idle), (i, idle), (i, idle)] st) = (pcs st)[i := Exited]"
proof (cases "0 < tokens st")
  case True
  with assms show ?thesis by (simp add: exec_def step_def Let_def idle_def)
next
  case False
  with assms show ?thesis by (simp add: exec_def step_def Let_def idle_def)
qed

lemma replicate_update:
  assumes "k < n"
  shows "(replicate k a @ replicate (n - k) b)[k := a]
     = replicate (Suc k) a @ replicate (n - Suc k) b"
proof -
  from assms have "n - k = Suc (n - Suc k)" by simp
  then have "replicate (n - k) b = b # replicate (n - Suc k) b" by simp
  then have "(replicate k a @ replicate (n - k) b)[k := a]
      = replicate k a @ a # replicate (n - Suc k) b"
    using list_update_length [of "replicate k a" b "replicate (n - Suc k) b" a] by simp
  also have "\<dots> = replicate (Suc k) a @ replicate (n - Suc k) b"
    by (simp add: replicate_append_same)
  finally show ?thesis .
qed

lemma drain_exits:
  assumes "pcs st = replicate n LoopHead" and "k \<le> n"
  shows "pcs (exec (drain k) st) = replicate k Exited @ replicate (n - k) LoopHead"
  using assms(2)
proof (induction k)
  case 0
  with assms(1) show ?case by (simp add: drain_def exec_def)
next
  case (Suc k)
  then have IH: "pcs (exec (drain k) st) = replicate k Exited @ replicate (n - k) LoopHead"
    and k: "k < n" by simp_all
  have d: "drain (Suc k) = drain k @ [(k, idle), (k, idle), (k, idle)]"
    by (simp add: drain_def)
  from IH k have l: "k < length (pcs (exec (drain k) st))"
    and h: "pcs (exec (drain k) st) ! k = LoopHead"
    by (simp_all add: nth_append)
  show ?case
    unfolding d exec_append three_steps_exit [OF l h] IH
    using k by (rule replicate_update)
qed

lemma Run_returns_or_panics:
  "Run (env\<lparr>schedule := drain (nat (sint (Concurrency t)))\<rparr>) t \<noteq> Waiting"
proof -
  let ?env = "env\<lparr>schedule := drain (nat (sint (Concurrency t)))\<rparr>"
  have "pcs (start ?env t) = replicate (nat (sint (Concurrency t))) LoopHead"
    by (simp add: start_def)
  from drain_exits [OF this order_refl]
  have "all_exited (exec (drain (nat (sint (Concurrency t)))) (start ?env t))"
    by (simp add: all_exited_def list_all_iff)
  then show ?thesis
    by (simp add: Run_def Run_finish_def Let_def
        split: outcome.splits option.splits sum.splits prod.splits)
qed

section \<open>The counters of a run\<close>

lemma count_update:
  "i < length xs \<Longrightarrow>
   length (filter P (xs[i := y])) + (if P (xs ! i) then 1 else 0) =
   length (filter P xs) + (if P y then 1 else 0)"
proof (induction xs arbitrary: i)
  case Nil
  then show ?case by simp
next
  case (Cons x xs)
  then show ?case by (cases i) auto
qed

lemma count_leave:
  "i < length xs \<Longrightarrow> P (xs ! i) \<Longrightarrow> \<not> P y \<Longrightarrow>
   length (filter P xs) = Suc (length (filter P (xs[i := y])))"
  using count_update [of i xs P y] by simp

lemma count_enter:
  "i < length xs \<Longrightarrow> \<not> P (xs ! i) \<Longrightarrow> P y \<Longrightarrow>
   length (filter P (xs[i := y])) = Suc (length (filter P xs))"
  using count_update [of i xs P y] by simp

lemma count_same:
  "i < length xs \<Longrightarrow> P (xs ! i) = P y \<Longrightarrow>
   length (filter P (xs[i := y])) = length (filter P xs)"
  using count_update [of i xs P y] by simp

lemma step_counted: "counted st \<Longrightarrow> counted (step e st)"
proof (cases "length (pcs st) \<le> fst e")
  case True
  assume "counted st"
  with True show ?thesis by (simp add: step_def Let_def)
next
  case False
  assume a: "counted st"
  from False have i: "fst e < length (pcs st)" by simp
  show ?thesis
  proof (cases "pcs st ! fst e")
    case LoopHead
    with i have "length (filter in_flight ((pcs st)[fst e := y])) = length (filter in_flight (pcs st))"
      if "\<not> in_flight y" for y
      using that by (simp add: count_same in_flight_def)
    with a i LoopHead show ?thesis
      by (simp add: step_def Let_def counted_def in_flight_def)
  next
    case Received
    with i have "length (filter in_flight ((pcs st)[fst e := Calling])) = Suc (length (filter in_flight (pcs st)))"
      by (simp add: count_enter in_flight_def)
    with a i Received show ?thesis
      by (simp add: step_def Let_def counted_def worker_defs)
  next
    case Calling
    with i have 1: "length (filter in_flight (pcs st)) = Suc (length (filter in_flight ((pcs st)[fst e := Exited])))"
      by (simp add: count_leave in_flight_def)
    from Calling i have 2: "length (filter in_flight ((pcs st)[fst e := Timed x])) = length (filter in_flight (pcs st))" for x
      by (simp add: count_same in_flight_def)
    from a have a': "Requests (stats (tester st)) =
       Successes (stats (tester st)) + Failures (stats (tester st))
       + of_nat (length (filter in_flight (pcs st)))" by (simp add: counted_def)
    show ?thesis
    proof (cases "snd e")
      case (BuildError err)
      with a' i Calling show ?thesis
        by (simp add: step_def Let_def counted_def worker_defs 1)
    next
      case (TransportError err)
      with a' i Calling show ?thesis
        by (simp add: step_def Let_def counted_def worker_defs 1)
    next
      case (Response code ns)
      with a' i Calling show ?thesis
        by (simp add: step_def Let_def counted_def worker_defs 2)
    qed
  next
    case (Timed code)
    with i have 1: "length (filter in_flight (pcs st)) = Suc (length (filter in_flight ((pcs st)[fst e := y])))"
      if "\<not> in_flight y" for y
      using that by (simp add: count_leave in_flight_def)
    from a have a': "Requests (stats (tester st)) =
       Successes (stats (tester st)) + Failures (stats (tester st))
       + of_nat (length (filter in_flight (pcs st)))" by (simp add: counted_def)
    have e: "\<not> in_flight Exited" "\<not> in_flight LoopHead" by (simp_all add: in_flight_def)
    show ?thesis
    proof (cases "code = StatusOK")
      case True
      with a' i Timed show ?thesis
        by (simp add: step_def Let_def counted_def worker_defs 1 [OF e(2)])
    next
      case False
      with a' i Timed show ?thesis
        by (simp add: step_def Let_def counted_def worker_defs 1 [OF e(1)])
    qed
  next
    case Exited
    with a show ?thesis by (simp add: step_def Let_def)
  qed
qed

lemma exec_counted: "counted st \<Longrightarrow> counted (exec sched st)"
  unfolding exec_def by (induction sched arbitrary: st) (simp_all add: step_counted)

lemma filter_in_flight_exited: "list_all (\<lambda>p. p = Exited) ps \<Longrightarrow> filter in_flight ps = []"
  by (induction ps) (simp_all add: in_flight_def)

lemma counted_exited: "counted st \<Longrightarrow> all_exited st \<Longrightarrow> balanced (tester st)"
  by (simp add: counted_def all_exited_def balanced_def filter_in_flight_exited)

lemma filter_in_flight_replicate: "filter in_flight (replicate k LoopHead) = []"
  by (induction k) (simp_all add: in_flight_def)

lemma counted_start: "balanced t \<Longrightarrow> counted (start env t)"
  by (simp add: counted_def start_def balanced_def filter_in_flight_replicate)

lemma or_panic_Returns:
  "or_panic x k = Returns r \<Longrightarrow> \<exists>v. x = Returns v \<and> k v = Returns r"
  by (cases x) (simp_all add: or_panic_def)

lemma SetMetrics_counters:
  assumes "SetMetrics t = Returns (e, t')"
  shows "Requests (stats t') = Requests (stats t) \<and> Successes (stats t') = Successes (stats t)
         \<and> Failures (stats t') = Failures (stats t) \<and> stdout t' = stdout t"
proof (cases "length (ExecutionsTime (TimeRecorder t)) < 1")
  case True
  with assms show ?thesis by (simp add: SetMetrics_def)
next
  case False
  with assms show ?thesis
    by (auto simp add: SetMetrics_def Let_def split: prod.splits dest!: or_panic_Returns)
qed

lemma report_counters:
  "Requests (stats (report env t)) = Requests (stats t) \<and>
   Successes (stats (report env t)) = Successes (stats t) \<and>
   Failures (stats (report env t)) = Failures (stats t)"
  by (simp add: report_def LogStdOut_def)

lemma Run_finish_balanced:
  assumes "Run_finish env t = RunReturns err t' file" and "balanced t"
  shows "balanced t'"
proof (cases "SetMetrics (t\<lparr>EndAt := since_start env\<rparr>)")
  case (Panics m)
  with assms show ?thesis by (simp add: Run_finish_def Let_def)
next
  case (Returns r)
  obtain e t1 where r: "r = (e, t1)" by (cases r)
  from SetMetrics_counters [of "t\<lparr>EndAt := since_start env\<rparr>" e t1] Returns r assms(2)
  have b: "balanced t1" by (simp add: balanced_def)
  then have b': "balanced (report env t1)" by (simp add: balanced_def report_counters)
  from assms(1) Returns r b b' show ?thesis
    by (auto simp add: Run_finish_def Let_def split: option.splits if_splits sum.splits prod.splits)
qed

text \<open>
  Claim C4. When the counters of the tester are balanced at the start (as they are in a
  new tester, all zero), \<open>requests = successes + failures\<close> holds after a worker has run
  \<open>DoRequest\<close> on any answers of the network, after any interleaving of the steps of the
  workers that leaves every worker returned, and in the tester that any returning \<open>Run\<close>
  leaves.
\<close>

theorem requests_balance:
  assumes "balanced t"
  shows "balanced (DoRequest work t) \<and>
         (all_exited (exec sched (start env t)) \<longrightarrow> balanced (tester (exec sched (start env t)))) \<and>
         (Run env t = RunReturns err t' file \<longrightarrow> balanced t')"
proof (intro conjI impI)
  have "length (performed work) =
          length (filter ok (performed work)) + length (filter (\<lambda>c. \<not> ok c) (performed work))"
    by (simp add: sum_length_filter_compl)
  with assms show "balanced (DoRequest work t)"
    by (simp add: balanced_def DoRequest_Requests DoRequest_Successes DoRequest_Failures)
next
  assume "all_exited (exec sched (start env t))"
  with assms show "balanced (tester (exec sched (start env t)))"
    by (simp add: counted_exited exec_counted counted_start)
next
  assume r: "Run env t = RunReturns err t' file"
  then have x: "all_exited (exec (schedule env) (start env t))"
    and f: "Run_finish env (tester (exec (schedule env) (start env t))) = RunReturns err t' file"
    by (simp_all add: Run_def Let_def split: if_splits)
  from assms x have "balanced (tester (exec (schedule env) (start env t)))"
    by (simp add: counted_exited exec_counted counted_start)
  with f show "balanced t'" by (rule Run_finish_balanced)
qed

text \<open>Two workers, three tokens: a success, a 418 and a timeout.\<close>

theorem requests_balance_witness:
  "balanced two_workers \<and>
   balanced (DoRequest [Response 200 1000000, Response 418 5000000] two_workers) \<and>
   all_exited (exec mixed_schedule (start (fake_env mixed_schedule) two_workers)) \<and>
   balanced (tester (exec mixed_schedule (start (fake_env mixed_schedule) two_workers))) \<and>
   Requests (stats (tester (exec mixed_schedule (start (fake_env mixed_schedule) two_workers)))) = 3 \<and>
   (case Run (fake_env mixed_schedule) two_workers of
      RunReturns err t' file \<Rightarrow> err = None \<and> balanced t' \<and> Requests (stats t') = 3 \<and> Successes (stats t') = 1
    | _ \<Rightarrow> False)"
proof -
  have b: "balanced two_workers" by code_simp
  have x: "all_exited (exec mixed_schedule (start (fake_env mixed_schedule) two_workers))"
    by code_simp
  have n: "Requests (stats (tester (exec mixed_schedule (start (fake_env mixed_schedule) two_workers)))) = 3"
    by code_simp
  obtain t' sf where r: "Run (fake_env mixed_schedule) two_workers = RunReturns None t' sf"
    and s: "Requests (stats t') = 3 \<and> Successes (stats t') = 1"
  proof -
    have "case Run (fake_env mixed_schedule) two_workers of
            RunReturns err t' file \<Rightarrow> err = None \<and> Requests (stats t') = 3 \<and> Successes (stats t') = 1
          | _ \<Rightarrow> False"
      by code_simp
    then show ?thesis using that by (auto split: run_result.splits)
  qed
  from requests_balance [OF b, of "[Response 200 1000000, Response 418 5000000]" mixed_schedule
      "fake_env mixed_schedule" None t' sf] b x n r s
  show ?thesis by simp
qed

section \<open>Run without a sample\<close>

lemma step_keeps:
  "P50 (stats (tester (step e st))) = P50 (stats (tester st)) \<and>
   P90 (stats (tester (step e st))) = P90 (stats (tester st)) \<and>
   P99 (stats (tester (step e st))) = P99 (stats (tester st)) \<and>
   Mean (stats (tester (step e st))) = Mean (stats (tester st)) \<and>
   URL (stats (tester (step e st))) = URL (stats (tester st)) \<and>
   stdout (tester (step e st)) = stdout (tester st)"
  by (simp add: step_def Let_def worker_defs split: pc.splits call.splits)

lemma exec_keeps:
  "P50 (stats (tester (exec sched st))) = P50 (stats (tester st)) \<and>
   P90 (stats (tester (exec sched st))) = P90 (stats (tester st)) \<and>
   P99 (stats (tester (exec sched st))) = P99 (stats (tester st)) \<and>
   Mean (stats (tester (exec sched st))) = Mean (stats (tester st)) \<and>
   URL (stats (tester (exec sched st))) = URL (stats (tester st)) \<and>
   stdout (tester (exec sched st)) = stdout (tester st)"
  unfolding exec_def
proof (induction sched arbitrary: st)
  case Nil
  show ?case by simp
next
  case (Cons e sched)
  show ?case using Cons [of "step e st"] step_keeps [of e st] by simp
qed

text \<open>
  Claim C5. On an empty recorder \<open>SetMetrics\<close> returns \<open>ErrTimeNotRecorded\<close> and leaves
  the tester as it is. When the workers of a run have all returned and the recorder is
  empty, \<open>Run\<close> returns that error to its caller: no stats file is written, nothing has
  been printed on the standard output, and the percentiles and the mean of the stats are
  those the tester had before the run.
\<close>

theorem no_data_error:
  "(ExecutionsTime (TimeRecorder t) = [] \<longrightarrow>
      SetMetrics t = Returns (Some ErrTimeNotRecorded, t)) \<and>
   (\<not> Concurrency t <s 0 \<and> all_exited (exec (schedule env) (start env t)) \<and>
    ExecutionsTime (TimeRecorder (after_workers env t)) = [] \<longrightarrow>
      Run env t = RunReturns (Some ErrTimeNotRecorded)
                    ((after_workers env t)\<lparr>EndAt := since_start env\<rparr>) None \<and>
      P50 (stats (after_workers env t)) = P50 (stats t) \<and>
      P90 (stats (after_workers env t)) = P90 (stats t) \<and>
      P99 (stats (after_workers env t)) = P99 (stats t) \<and>
      Mean (stats (after_workers env t)) = Mean (stats t) \<and>
      stdout (after_workers env t) = stdout t)"
proof (intro conjI impI)
  assume "ExecutionsTime (TimeRecorder t) = []"
  then show "SetMetrics t = Returns (Some ErrTimeNotRecorded, t)"
    by (simp add: SetMetrics_def)
next
  assume h: "\<not> Concurrency t <s 0 \<and> all_exited (exec (schedule env) (start env t)) \<and>
    ExecutionsTime (TimeRecorder (after_workers env t)) = []"
  then have "SetMetrics ((after_workers env t)\<lparr>EndAt := since_start env\<rparr>) =
      Returns (Some ErrTimeNotRecorded, (after_workers env t)\<lparr>EndAt := since_start env\<rparr>)"
    by (simp add: SetMetrics_def)
  with h show "Run env t = RunReturns (Some ErrTimeNotRecorded)
                    ((after_workers env t)\<lparr>EndAt := since_start env\<rparr>) None"
    by (simp add: Run_def Run_finish_def after_workers_def Let_def)
next
  show "P50 (stats (after_workers env t)) = P50 (stats t)"
    "P90 (stats (after_workers env t)) = P90 (stats t)"
    "P99 (stats (after_workers env t)) = P99 (stats t)"
    "Mean (stats (after_workers env t)) = Mean (stats t)"
    "stdout (after_workers env t) = stdout t"
    using exec_keeps [of "schedule env" "start env t"]
    by (simp_all add: after_workers_def start_def)
qed

text \<open>One worker, one token, a timeout.\<close>

theorem no_data_error_witness:
  "ExecutionsTime (TimeRecorder fake_tester) = [] \<and>
   SetMetrics fake_tester = Returns (Some ErrTimeNotRecorded, fake_tester) \<and>
   \<not> Concurrency fake_tester <s 0 \<and>
   all_exited (exec (schedule (fake_env failing_schedule)) (start (fake_env failing_schedule) fake_tester)) \<and>
   ExecutionsTime (TimeRecorder (after_workers (fake_env failing_schedule) fake_tester)) = [] \<and>
   Failures (stats (after_workers (fake_env failing_schedule) fake_tester)) = 1 \<and>
   Run (fake_env failing_schedule) fake_tester =
     RunReturns (Some ErrTimeNotRecorded)
       ((after_workers (fake_env failing_schedule) fake_tester)\<lparr>EndAt := 7000000\<rparr>) None \<and>
   P50 (stats (after_workers (fake_env failing_schedule) fake_tester)) = 0 \<and>
   stdout (after_workers (fake_env failing_schedule) fake_tester) = Buffer []"
proof -
  have 1: "ExecutionsTime (TimeRecorder fake_tester) = []" by code_simp
  have 2: "\<not> Concurrency fake_tester <s 0" by code_simp
  have 3: "all_exited (exec (schedule (fake_env failing_schedule)) (start (fake_env failing_schedule) fake_tester))"
    by code_simp
  have 4: "ExecutionsTime (TimeRecorder (after_workers (fake_env failing_schedule) fake_tester)) = []"
    by code_simp
  have 5: "Failures (stats (after_workers (fake_env failing_schedule) fake_tester)) = 1"
    by code_simp
  have 6: "P50 (stats fake_tester) = 0" "stdout fake_tester = Buffer []"
    "since_start (fake_env failing_schedule) = 7000000"
    by (simp_all add: fake_tester_def default_tester_def zero_Stats_def fake_env_def)
  from no_data_error [of fake_tester "fake_env failing_schedule"] 1 2 3 4 5 6
  show ?thesis by simp
qed

section \<open>The order of the checks of NewTester\<close>

lemma apply_opts_append:
  "apply_opts (pre @ post) t =
     (case apply_opts pre t of Inl e \<Rightarrow> Inl e | Inr t' \<Rightarrow> apply_opts post t')"
  by (induction pre arbitrary: t) (simp_all split: sum.splits)

text \<open>
  Claim C7 puts the check of the writers last, after that of the URL and of the number
  of requests. The options run first: without a URL the error is \<open>ErrNoURL\<close>, but
  without a URL and with a nil writer it is \<open>ErrValueCannotBeNil\<close>; with \<open>-1\<close> requests
  the error is that of the number of requests, but with a nil writer as well it is
  \<open>ErrValueCannotBeNil\<close>.
\<close>

theorem nil_writer_checked_before_URL:
  "NewTester fake_url_Parse [] = Inl ErrNoURL \<and>
   NewTester fake_url_Parse [WithStdout None] = Inl ErrValueCannotBeNil \<and>
   NewTester fake_url_Parse [WithURL ''http://fake.url'', WithRequests (- 1)]
     = Inl (ErrInvalidRequests (- 1)) \<and>
   NewTester fake_url_Parse [WithURL ''http://fake.url'', WithRequests (- 1), WithStderr None]
     = Inl ErrValueCannotBeNil"
  by (simp add: NewTester_def WithStdout_def WithStderr_def WithURL_def WithRequests_def
        default_tester_def fake_url_Parse_def DefaultNumRequests_def word_sless_alt)

text \<open>
  Claim C7, amended. \<open>NewTester\<close> checks its configuration in this order and returns
  the first error, so no tester is built and no request is issued for an invalid
  configuration: the options in the order given, among them the check of
  \<open>WithStdout\<close> and \<open>WithStderr\<close> for a nil writer, which fails where the option stands
  whatever follows; then the presence of the URL; then \<open>url.Parse\<close> and the host; then
  the number of requests, which must be at least 1. When all succeed the tester the
  options built is returned.
\<close>

theorem NewTester_validation_order:
  "(apply_opts opts default_tester = Inl e \<longrightarrow> NewTester url_Parse opts = Inl e) \<and>
   (apply_opts pre default_tester = Inr t' \<longrightarrow>
      NewTester url_Parse (pre @ WithStdout None # post) = Inl ErrValueCannotBeNil \<and>
      NewTester url_Parse (pre @ WithStderr None # post) = Inl ErrValueCannotBeNil) \<and>
   (apply_opts opts default_tester = Inr t \<longrightarrow>
      (URL_t t = [] \<longrightarrow> NewTester url_Parse opts = Inl ErrNoURL) \<and>
      (URL_t t \<noteq> [] \<and> url_Parse (URL_t t) = Inl e \<longrightarrow> NewTester url_Parse opts = Inl e) \<and>
      (URL_t t \<noteq> [] \<and> url_Parse (URL_t t) = Inr u \<and> Host u = [] \<longrightarrow>
         NewTester url_Parse opts = Inl (ErrInvalidURL (String u))) \<and>
      (URL_t t \<noteq> [] \<and> url_Parse (URL_t t) = Inr u \<and> Host u \<noteq> [] \<and> requests t <s 1 \<longrightarrow>
         NewTester url_Parse opts = Inl (ErrInvalidRequests (requests t))) \<and>
      (URL_t t \<noteq> [] \<and> url_Parse (URL_t t) = Inr u \<and> Host u \<noteq> [] \<and> \<not> requests t <s 1 \<longrightarrow>
         NewTester url_Parse opts = Inr t))"
  by (simp add: NewTester_def apply_opts_append WithStdout_def WithStderr_def)

text \<open>One configuration for each check that fails, and one that is valid.\<close>

theorem NewTester_validation_order_witness:
  "NewTester fake_url_Parse [WithStdout None] = Inl ErrValueCannotBeNil \<and>
   NewTester fake_url_Parse ([WithRequests 0] @ WithStdout None # [WithURL []])
     = Inl ErrValueCannotBeNil \<and>
   NewTester fake_url_Parse ([WithRequests 0] @ WithStderr None # [WithURL []])
     = Inl ErrValueCannotBeNil \<and>
   NewTester fake_url_Parse [WithRequests 0] = Inl ErrNoURL \<and>
   NewTester fake_url_Parse [WithURL ''bogus'', WithRequests 0] = Inl (ErrExternal ''parse'') \<and>
   NewTester fake_url_Parse [WithURL ''bogus-no-host://'', WithRequests 0]
     = Inl (ErrInvalidURL ''bogus-no-host://'') \<and>
   NewTester fake_url_Parse [WithURL ''http://fake.url'', WithRequests 0]
     = Inl (ErrInvalidRequests 0) \<and>
   NewTester fake_url_Parse [WithURL ''http://fake.url'', WithRequests 10]
     = Inr (default_tester\<lparr>URL_t := ''http://fake.url'', requests := 10\<rparr>)"
proof -
  have a: "apply_opts [WithStdout None] default_tester = Inl ErrValueCannotBeNil"
    by (simp add: WithStdout_def)
  have b: "apply_opts [WithRequests 0] default_tester = Inr (default_tester\<lparr>requests := 0\<rparr>)"
    by (simp add: WithRequests_def)
  have c: "apply_opts [WithURL ''bogus'', WithRequests 0] default_tester
             = Inr (default_tester\<lparr>URL_t := ''bogus'', requests := 0\<rparr>)"
    by (simp add: WithRequests_def WithURL_def)
  have d: "apply_opts [WithURL ''bogus-no-host://'', WithRequests 0] default_tester
             = Inr (default_tester\<lparr>URL_t := ''bogus-no-host://'', requests := 0\<rparr>)"
    by (simp add: WithRequests_def WithURL_def)
  have e: "apply_opts [WithURL ''http://fake.url'', WithRequests 0] default_tester
             = Inr (default_tester\<lparr>URL_t := ''http://fake.url'', requests := 0\<rparr>)"
    by (simp add: WithRequests_def WithURL_def)
  have f: "apply_opts [WithURL ''http://fake.url'', WithRequests 10] default_tester
             = Inr (default_tester\<lparr>URL_t := ''http://fake.url'', requests := 10\<rparr>)"
    by (simp add: WithRequests_def WithURL_def)
  have u: "URL_t (default_tester\<lparr>requests := 0\<rparr>) = []" by (simp add: default_tester_def)
  have p: "fake_url_Parse ''bogus'' = Inl (ErrExternal ''parse'')"
    "fake_url_Parse ''bogus-no-host://'' = Inr \<lparr>Host = [], String = ''bogus-no-host://''\<rparr>"
    "fake_url_Parse ''http://fake.url'' = Inr \<lparr>Host = ''fake.url'', String = ''http://fake.url''\<rparr>"
    by (simp_all add: fake_url_Parse_def)
  have s: "(0 :: go_int) <s 1" "\<not> (10 :: go_int) <s 1" by (simp_all add: word_sless_alt)
  show ?thesis
    using
      NewTester_validation_order [of "[WithStdout None]" ErrValueCannotBeNil fake_url_Parse
        "[WithRequests 0]" "default_tester\<lparr>requests := 0\<rparr>" "[WithURL []]"]
      NewTester_validation_order [of "[WithRequests 0]" _ fake_url_Parse "[]" default_tester "[]"
        "default_tester\<lparr>requests := 0\<rparr>"]
      NewTester_validation_order [of "[WithURL ''bogus'', WithRequests 0]" "ErrExternal ''parse''"
        fake_url_Parse "[]" default_tester "[]"
        "default_tester\<lparr>URL_t := ''bogus'', requests := 0\<rparr>"]
      NewTester_validation_order [of "[WithURL ''bogus-no-host://'', WithRequests 0]" _
        fake_url_Parse "[]" default_tester "[]"
        "default_tester\<lparr>URL_t := ''bogus-no-host://'', requests := 0\<rparr>"
        "\<lparr>Host = [], String = ''bogus-no-host://''\<rparr>"]
      NewTester_validation_order [of "[WithURL ''http://fake.url'', WithRequests 0]" _
        fake_url_Parse "[]" default_tester "[]"
        "default_tester\<lparr>URL_t := ''http://fake.url'', requests := 0\<rparr>"
        "\<lparr>Host = ''fake.url'', String = ''http://fake.url''\<rparr>"]
      NewTester_validation_order [of "[WithURL ''http://fake.url'', WithRequests 10]" _
        fake_url_Parse "[]" default_tester "[]"
        "default_tester\<lparr>URL_t := ''http://fake.url'', requests := 10\<rparr>"
        "\<lparr>Host = ''fake.url'', String = ''http://fake.url''\<rparr>"]
      a b c d e f u p s
    by simp
qed

section \<open>CompareStats\<close>

text \<open>
  Claim C9. For every pair of Stats records, each of the six fields of the StatsDelta
  that \<open>CompareStats stats1 stats2\<close> returns is the field of \<open>stats2\<close> minus the field of
  \<open>stats1\<close>: the difference of two floats for the percentiles, the (wrapping) difference
  of two \<open>int\<close>s for the counts.
\<close>

theorem CompareStats_second_minus_first:
  "P50_d (CompareStats stats1 stats2) = P50 stats2 - P50 stats1 \<and>
   P90_d (CompareStats stats1 stats2) = P90 stats2 - P90 stats1 \<and>
   P99_d (CompareStats stats1 stats2) = P99 stats2 - P99 stats1 \<and>
   Requests_d (CompareStats stats1 stats2) = Requests stats2 - Requests stats1 \<and>
   Successes_d (CompareStats stats1 stats2) = Successes stats2 - Successes stats1 \<and>
   Failures_d (CompareStats stats1 stats2) = Failures stats2 - Failures stats1"
  by (simp add: CompareStats_def)

text \<open>The records of \<open>TestCompareStatsReturnsCorrectStatsDelta\<close>.\<close>

lemma CompareStats_example:
  "CompareStats
     (zero_Stats\<lparr>Failures := 2, P50 := 20, P90 := 30, P99 := 100, Requests := 20, Successes := 18\<rparr>)
     (zero_Stats\<lparr>Failures := 1, P50 := 5, P90 := 33, P99 := 99, Requests := 40, Successes := 19\<rparr>)
   = \<lparr>P50_d = - 15, P90_d = 3, P99_d = - 1, Requests_d = 20, Failures_d = - 1, Successes_d = 1\<rparr>"
  by (simp add: CompareStats_def zero_Stats_def)

section \<open>The round trip of the codec\<close>

subsection \<open>Digits\<close>

lemma digit_cases:
  "d < 10 \<Longrightarrow> d = 0 \<or> d = 1 \<or> d = 2 \<or> d = 3 \<or> d = 4 \<or> d = 5 \<or> d = 6 \<or> d = 7 \<or> d = 8 \<or> d = (9::nat)"
  by arith

lemma digit_char_props:
  assumes "d < 10"
  shows "is_digit (digit_char d)" and "digit_val (digit_char d) = int d"
    and "digit_char d \<noteq> CHR '',''" and "digit_char d \<noteq> CHR 0x0A"
    and "digit_char d \<noteq> CHR 0x0D" and "digit_char d \<noteq> CHR ''.''"
    and "digit_char d \<noteq> CHR ''-''" and "digit_char d \<noteq> CHR ''+''"
  using digit_cases [OF assms]
  by (auto simp add: digit_char_def is_digit_def digit_val_def)


lemma dec_digits_digits: "list_all is_digit (dec_digits n)"
proof (induction n rule: dec_digits.induct)
  case (1 n)
  show ?case
  proof (cases "n < 10")
    case True
    then have "nat n < 10" by simp
    then show ?thesis
      by (subst dec_digits.simps) (simp add: True digit_char_props)
  next
    case False
    have "nat (n mod 10) < 10" by simp
    with False 1 show ?thesis
      by (subst dec_digits.simps) (simp add: digit_char_props)
  qed
qed








subsection \<open>Split\<close>

lemma Split_no_sep: "sep \<notin> set a \<Longrightarrow> Split a sep = [a]"
  by (induction a) auto



subsection \<open>ParseFloat\<close>


lemma pad3_digits: "list_all is_digit (pad3 k)"
  by (simp add: pad3_def digit_char_props)









subsection \<open>One record\<close>

lemma digits_free:
  assumes "list_all is_digit ds" and "\<not> is_digit c"
  shows "c \<notin> set ds"
  using assms by (auto simp add: list_all_iff)

lemma not_digit_sep: "\<not> is_digit (CHR '','')" "\<not> is_digit (CHR 0x0A)" "\<not> is_digit (CHR 0x0D)"
  by (simp_all add: is_digit_def)

lemma fmt_d_free: "CHR '','' \<notin> set (fmt_d i)" "CHR 0x0A \<notin> set (fmt_d i)"
  using digits_free [OF dec_digits_digits not_digit_sep(1)]
    digits_free [OF dec_digits_digits not_digit_sep(2)]
  by (simp_all add: fmt_d_def)

lemma fmt_f3_free: "CHR '','' \<notin> set (fmt_f3 x)" "CHR 0x0A \<notin> set (fmt_f3 x)"
  using digits_free [OF dec_digits_digits not_digit_sep(1)]
    digits_free [OF dec_digits_digits not_digit_sep(2)]
    digits_free [OF pad3_digits not_digit_sep(1)]
    digits_free [OF pad3_digits not_digit_sep(2)]
  by (simp_all add: fmt_f3_def Let_def)

lemma fmt_f3_last: "fmt_f3 x \<noteq> []" "last (fmt_f3 x) \<noteq> CHR 0x0D"
proof -
  show "fmt_f3 x \<noteq> []" by (simp add: fmt_f3_def Let_def)
  have "nat (j mod 10) < 10" for j :: int by simp
  then have "digit_char (nat (j mod 10)) \<noteq> CHR 0x0D" for j :: int
    by (rule digit_char_props)
  then show "last (fmt_f3 x) \<noteq> CHR 0x0D"
    by (simp add: fmt_f3_def Let_def pad3_def)
qed



lemma stats_line_one_line:
  assumes "CHR 0x0A \<notin> set (URL s)"
  shows "raw_lines (stats_line s) = [stats_line s]" and "dropCR (stats_line s) = stats_line s"
proof -
  have n: "CHR 0x0A \<notin> set (stats_line s)"
    using assms by (simp add: stats_line_def fmt_d_free fmt_f3_free)
  have e: "stats_line s \<noteq> []" by (simp add: stats_line_def)
  from n e show "raw_lines (stats_line s) = [stats_line s]"
    by (simp add: raw_lines_def Split_no_sep)
  have "last (stats_line s) = last (fmt_f3 (P99 s))"
    by (simp add: stats_line_def fmt_f3_last)
  then show "dropCR (stats_line s) = stats_line s"
    by (simp add: dropCR_def fmt_f3_last)
qed




text \<open>A URL of 64 KiB or more makes a line the scanner refuses.\<close>

lemma long_line_is_error:
  assumes "MaxScanTokenSize \<le> int (length (URL s))" and "CHR 0x0A \<notin> set (URL s)"
  shows "ReadStatsFile (stats_line s) = Returns (Inl ErrTooLong)"
proof -
  have "length (URL s) \<le> length (stats_line s)" by (simp add: stats_line_def)
  with assms(1) have "MaxScanTokenSize \<le> int (length (stats_line s))" by simp
  then show ?thesis
    by (simp add: ReadStatsFile_def stats_line_one_line [OF assms(2)])
qed

section \<open>ReadStatsFile on a line with a missing field\<close>

text \<open>
  Claim C6 says that a line with a missing field makes \<open>ReadStatsFile\<close> return an error
  and never crash. The loop indexes the result of \<open>strings.Split\<close> without a check of its
  length: on the line \<open>http://fake.url,20\<close>, which has two fields, the expression
  \<open>pos[2]\<close> panics.
\<close>

theorem ReadStatsFile_missing_field_panics:
  "ReadStatsFile ''http://fake.url,20'' = Panics index_out_of_range"
  by code_simp

text \<open>So does every text of one line without a comma.\<close>

lemma ReadStatsFile_one_field_panics:
  assumes "CHR '','' \<notin> set l" and "CHR 0x0A \<notin> set l" and "l \<noteq> []"
    and "int (length l) < MaxScanTokenSize"
  shows "ReadStatsFile l = Panics index_out_of_range"
proof -
  have n: "Split l (CHR 0x0A) = [l]" "Split (dropCR l) (CHR '','') = [dropCR l]"
  proof -
    have "set (dropCR l) \<subseteq> set l"
      by (auto simp add: dropCR_def dest: in_set_butlastD)
    with assms(1) have "CHR '','' \<notin> set (dropCR l)" by blast
    then show "Split (dropCR l) (CHR '','') = [dropCR l]" by (rule Split_no_sep)
    from assms(2) show "Split l (CHR 0x0A) = [l]" by (rule Split_no_sep)
  qed
  then have "ReadStatsFile_line (dropCR l) = Panics index_out_of_range"
    by (simp add: ReadStatsFile_line_def slice_at_def or_panic_def)
  with assms(3,4) n(1) show ?thesis
    by (simp add: ReadStatsFile_def raw_lines_def)
qed

text \<open>A field that is there and is no number is reported as an error, as C6 says.\<close>

lemma ReadStatsFile_bad_number_is_error:
  "ReadStatsFile ''http://fake.url,x,19,1,100.123,150.000,198.465''
     = Returns (Inl (ErrSyntax ''Atoi'' ''x''))"
  by code_simp

text \<open>The text of \<open>TestReadStatsFilePopulatesCorrectStats\<close>.\<close>

lemma ReadStatsFile_example:
  "ReadStatsFile ''http://fake.url,20,19,1,100.123,150.000,198.465'' =
     Returns (Inr [\<lparr>URL = ''http://fake.url'', Mean = 0, P50 = 100123 / 1000, P90 = 150,
                     P99 = 198465 / 1000, Failures = 1, Requests = 20, Successes = 19\<rparr>])"
  by code_simp

section \<open>CompareStatsFiles\<close>

text \<open>
  Claim C10 says that \<open>CompareStatsFiles\<close> returns the zero StatsDelta and a nil error
  whatever the files hold, once the first path opens. It calls \<open>ReadStatsFile\<close> on the
  first file, so the panic of \<open>ReadStatsFile\<close> on a line with a missing field is a
  panic of \<open>CompareStatsFiles\<close>: here both paths open and the files hold the two fields
  \<open>http://fake.url,20\<close>.
\<close>

theorem CompareStatsFiles_malformed_panics:
  "CompareStatsFiles (\<lambda>path. Inr ''http://fake.url,20'') ''stats1.txt'' ''stats2.txt''
     = Panics index_out_of_range"
  by code_simp

text \<open>
  When \<open>ReadStatsFile\<close> returns, with records or with an error, the result is the zero
  StatsDelta and nil, and the second path is never looked at.
\<close>

lemma CompareStatsFiles_zero:
  "fs path1 = Inr f1 \<Longrightarrow> ReadStatsFile f1 = Returns r \<Longrightarrow>
   CompareStatsFiles fs path1 path2 = Returns (zero_StatsDelta, None)"
  by (simp add: CompareStatsFiles_def)

end
